theory Spec2Isabelle
  imports Complex_Main "HOL-Library.Log_Nat"
begin

section \<open>Life in Weeks: the week model, the grid and the submit handler of script.js\<close>

text \<open>
  The script is one closure over a handful of page elements. Its functions are embedded
  here in the order of the source, with the page and the wall clock as an explicit
  \<open>world\<close>: a function that reads it takes it, a function that writes it returns it.

  Numbers. A JavaScript number is a double. The time value of a valid date is an integer
  of at most \<open>8.64e15\<close> in magnitude, below \<open>2 ^ 53\<close>, and is an \<open>int\<close> here, as are
  \<open>totalWeeks\<close> and the floor \<open>weeksLived\<close>. Every other number is a \<open>rat\<close> that is a
  double: the subtraction and the two divisions of \<open>calculateWeeks\<close> are the exact
  operation followed by \<open>double\<close>, the rounding to the nearest number with a significand
  of 53 bits, ties to even, and the literal \<open>0.1\<close> of the handler is \<open>double 0.1\<close>. The
  exponent is not bounded: between two valid dates every number that arises is \<open>0\<close> or
  lies between \<open>2 ^ -35\<close> and \<open>2 ^ 54\<close>, far from overflow and from the subnormals. The
  products \<open>1000 * 60 * 60 * 24 * 7\<close> and \<open>1000 * 60 * 60 * 24 * 365.25\<close>, and \<open>90\<close> and
  \<open>110\<close>, are exact in doubles and are written as they are.

  Dates. A \<open>Date\<close> is its time value \<open>getTime()\<close>, in milliseconds; \<open>calculateWeeks\<close>
  is reached only behind the handler's \<open>Number.isNaN\<close> guard, so an invalid date shows
  up only as the \<open>None\<close> of \<open>parseDate\<close>.
\<close>

subsection \<open>Constants\<close>

definition AVERAGE_LIFESPAN_YEARS :: int where
  "AVERAGE_LIFESPAN_YEARS = 90"

definition WEEKS_PER_YEAR :: int where
  "WEEKS_PER_YEAR = 52"

definition MAX_REASONABLE_AGE_YEARS :: int where
  "MAX_REASONABLE_AGE_YEARS = 110"

subsection \<open>The page and the clock\<close>

datatype cell = Past | Future

record row =
  decade :: bool
  cells :: "cell list"

record feedback =
  textContent :: string
  errorClass :: bool

datatype console_line =
  LogDob int | LogTotalWeeks int | LogWeeksLived int | Warn string

text \<open>
  \<open>clock\<close> is what \<open>new Date()\<close> reads. \<open>gridEl\<close> exists (the script returns at once
  otherwise); the three summary cards and the feedback line may be missing from the page,
  which is \<open>None\<close>.
\<close>

record world =
  clock :: int
  gridEl :: "row list"
  isFresh :: bool
  ageEl :: "string option"
  livedEl :: "string option"
  remainingEl :: "string option"
  dobErrorEl :: "feedback option"
  console :: "console_line list"

text \<open>
  What the script takes from its host and does not define: the parse of the input text by
  \<open>new Date(rawValue)\<close> (\<open>None\<close> when the time value is \<open>NaN\<close>), \<open>toFixed(1)\<close> and
  \<open>toLocaleString()\<close>.
\<close>

record host =
  parseDate :: "string \<Rightarrow> int option"
  toFixed1 :: "rat \<Rightarrow> string"
  toLocaleString :: "int \<Rightarrow> string"

subsection \<open>Doubles\<close>

text \<open>
  \<open>ilog2 q\<close> is the binary exponent of \<open>q > 0\<close>, the \<open>e\<close> with \<open>2 ^ e \<le> q < 2 ^ (e + 1)\<close>;
  \<open>roundHalfEven\<close> rounds to the nearest integer, a tie to the even one; \<open>double q\<close>
  rounds \<open>q\<close> to the nearest multiple of its unit in the last place, \<open>2 ^ (e - 52)\<close>.
\<close>

definition ilog2 :: "rat \<Rightarrow> int" where
  "ilog2 q = (case quotient_of q of (a, b) \<Rightarrow>
                let e = bitlen a - bitlen b in if 2 powi e \<le> q then e else e - 1)"

definition roundHalfEven :: "rat \<Rightarrow> int" where
  "roundHalfEven m =
     (let k = \<lfloor>m\<rfloor>; f = m - of_int k
      in if f < 1 / 2 then k else if f > 1 / 2 then k + 1 else if even k then k else k + 1)"

definition double :: "rat \<Rightarrow> rat" where
  "double q =
     (if q = 0 then 0
      else let ulp = 2 powi (ilog2 \<bar>q\<bar> - 52) in of_int (roundHalfEven (q / ulp)) * ulp)"

subsection \<open>calculateWeeks\<close>

datatype error = Error string

record weeks =
  totalWeeks :: int
  weeksLived :: int
  yearsLived :: rat

text \<open>
  A call of \<open>calculateWeeks(dob)\<close> on the world \<open>w\<close>: what it returns or throws, and the
  world it leaves. \<open>calculateWeeks w dob\<close> is the first of the two.
\<close>

definition calculateWeeks_call :: "int \<Rightarrow> world \<Rightarrow> (error + weeks) \<times> world" where
  "calculateWeeks_call dob w =
     (let now = clock w in
      if dob > now then (Inl (Error ''Date of birth cannot be in the future.''), w)
      else
        let msDiff = double (of_int now - of_int dob) in
        (Inr \<lparr> totalWeeks = AVERAGE_LIFESPAN_YEARS * WEEKS_PER_YEAR,
               weeksLived = \<lfloor>double (msDiff / (1000 * 60 * 60 * 24 * 7))\<rfloor>,
               yearsLived = double (msDiff / (1000 * 60 * 60 * 24 * 365.25)) \<rparr>, w))"

definition calculateWeeks :: "world \<Rightarrow> int \<Rightarrow> error + weeks" where
  "calculateWeeks w dob = fst (calculateWeeks_call dob w)"

subsection \<open>renderWeeksGrid\<close>

text \<open>
  The inner loop over \<open>week\<close>: it leaves by its bound or by the \<open>break\<close> at
  \<open>globalIndex >= safeTotal\<close>, and hands back the row's cells and the running index.
\<close>

function weekLoop :: "int \<Rightarrow> int \<Rightarrow> int \<Rightarrow> int \<Rightarrow> cell list \<Rightarrow> cell list \<times> int" where
  "weekLoop safeTotal safeLived week globalIndex cs =
     (if week < WEEKS_PER_YEAR then
        if globalIndex \<ge> safeTotal then (cs, globalIndex)
        else weekLoop safeTotal safeLived (week + 1) (globalIndex + 1)
               (cs @ [if globalIndex < safeLived then Past else Future])
      else (cs, globalIndex))"
  by pat_completeness auto
termination
  by (relation "measure (\<lambda>(safeTotal, safeLived, week, globalIndex, cs).
        nat (WEEKS_PER_YEAR - week))") auto

declare weekLoop.simps [simp del]

text \<open>
  The outer loop over \<open>year\<close>: the row is appended whatever it holds, then the loop
  leaves by the \<open>break\<close> at \<open>globalIndex >= safeTotal\<close> or by its bound.
\<close>

function yearLoop :: "int \<Rightarrow> int \<Rightarrow> int \<Rightarrow> int \<Rightarrow> row list \<Rightarrow> row list" where
  "yearLoop safeTotal safeLived year globalIndex rows =
     (if year < AVERAGE_LIFESPAN_YEARS then
        (case weekLoop safeTotal safeLived 0 globalIndex [] of
           (cs, globalIndex') \<Rightarrow>
             let rows' = rows @ [\<lparr> decade = (year > 0 \<and> year mod 10 = 0), cells = cs \<rparr>] in
             if globalIndex' \<ge> safeTotal then rows'
             else yearLoop safeTotal safeLived (year + 1) globalIndex' rows')
      else rows)"
  by pat_completeness auto
termination
  by (relation "measure (\<lambda>(safeTotal, safeLived, year, globalIndex, rows).
        nat (AVERAGE_LIFESPAN_YEARS - year))") auto

declare yearLoop.simps [simp del]

text \<open>The rows that \<open>renderWeeksGrid\<close> builds, and the function itself, which replaces
  the content of the grid element by them.\<close>

definition gridRows :: "int \<Rightarrow> int \<Rightarrow> row list" where
  "gridRows totalWeeks' weeksLived' =
     (let safeTotal = max 0 totalWeeks';
          safeLived = min (max 0 weeksLived') safeTotal
      in yearLoop safeTotal safeLived 0 0 [])"

definition renderWeeksGrid :: "int \<Rightarrow> int \<Rightarrow> world \<Rightarrow> world" where
  "renderWeeksGrid totalWeeks' weeksLived' w = w\<lparr> gridEl := gridRows totalWeeks' weeksLived' \<rparr>"

subsection \<open>updateSummary, applyGridAnimation, clearError, showError\<close>

definition updateSummary :: "host \<Rightarrow> weeks \<Rightarrow> world \<Rightarrow> world" where
  "updateSummary h r w =
     (let w1 = (case ageEl w of None \<Rightarrow> w
                | Some _ \<Rightarrow> w\<lparr> ageEl := Some (toFixed1 h (yearsLived r)) \<rparr>);
          w2 = (case livedEl w1 of None \<Rightarrow> w1
                | Some _ \<Rightarrow> w1\<lparr> livedEl := Some (toLocaleString h (weeksLived r)) \<rparr>)
      in (case remainingEl w2 of None \<Rightarrow> w2
          | Some _ \<Rightarrow>
              let remaining = max 0 (totalWeeks r - weeksLived r)
              in w2\<lparr> remainingEl := Some (toLocaleString h remaining) \<rparr>))"

definition applyGridAnimation :: "world \<Rightarrow> world" where
  "applyGridAnimation w = (w\<lparr> isFresh := False \<rparr>)\<lparr> isFresh := True \<rparr>"

definition clearError :: "world \<Rightarrow> world" where
  "clearError w =
     (case dobErrorEl w of None \<Rightarrow> w
      | Some _ \<Rightarrow> w\<lparr> dobErrorEl := Some \<lparr> textContent = [], errorClass = False \<rparr> \<rparr>)"

definition showError :: "string \<Rightarrow> world \<Rightarrow> world" where
  "showError message w =
     (case dobErrorEl w of None \<Rightarrow> w
      | Some _ \<Rightarrow> w\<lparr> dobErrorEl := Some \<lparr> textContent = message, errorClass = True \<rparr> \<rparr>)"

subsection \<open>The submit handler\<close>

text \<open>The tail of the \<open>try\<close> block, from the three \<open>console.log\<close> calls on.\<close>

definition render :: "host \<Rightarrow> int \<Rightarrow> weeks \<Rightarrow> world \<Rightarrow> world" where
  "render h dob r w =
     (let w1 = w\<lparr> console := console w @
                   [LogDob dob, LogTotalWeeks (totalWeeks r), LogWeeksLived (weeksLived r)] \<rparr>;
          w2 = renderWeeksGrid (totalWeeks r) (weeksLived r) w1;
          w3 = updateSummary h r w2
      in applyGridAnimation w3)"

definition submit :: "host \<Rightarrow> string \<Rightarrow> world \<Rightarrow> world" where
  "submit h rawValue w =
     (if rawValue = [] then showError ''Please enter your date of birth.'' w
      else
        (case parseDate h rawValue of
           None \<Rightarrow> showError ''That doesn't look like a valid date. Please try again.'' w
         | Some dob \<Rightarrow>
             (case calculateWeeks_call dob w of
                (Inl (Error message), w') \<Rightarrow> w'\<lparr> console := console w' @ [Warn message] \<rparr>
              | (Inr r, w') \<Rightarrow>
                  if yearsLived r < double 0.1 then
                    render h dob r
                      (showError ''Welcome to the world. This chart shows your journey ahead.'' w')
                  else if yearsLived r > of_int MAX_REASONABLE_AGE_YEARS then
                    showError ''That date is very far in the past. Please check your year.'' w'
                  else if yearsLived r > of_int AVERAGE_LIFESPAN_YEARS then
                    render h dob r
                      (showError ''You've passed the 90-year mark in this model. Remaining weeks are shown as zero.'' w')
                  else render h dob r (clearError w'))))"

subsection \<open>Names used in the statements\<close>

text \<open>The tag of the cell with global index \<open>i\<close> (lines 78 to 82), and the row that one
  pass of the outer loop appends when it starts at global index \<open>g\<close>.\<close>

definition tag :: "int \<Rightarrow> nat \<Rightarrow> cell" where
  "tag safeLived i = (if int i < safeLived then Past else Future)"

definition yearRow :: "int \<Rightarrow> int \<Rightarrow> int \<Rightarrow> int \<Rightarrow> row" where
  "yearRow T L year g =
     \<lparr> decade = (year > 0 \<and> year mod 10 = 0),
       cells = map (tag L) [nat g ..< nat g + nat (min 52 (T - g))] \<rparr>"

text \<open>\<open>clamp\<close> as the specification uses the word: \<open>x\<close> brought into \<open>[lo, hi]\<close>.\<close>

definition clamp :: "int \<Rightarrow> int \<Rightarrow> int \<Rightarrow> int" where
  "clamp x lo hi = max lo (min x hi)"

text \<open>The one error \<open>calculateWeeks\<close> throws, under the specification's name for it.\<close>

definition FutureDateOfBirth :: error where
  "FutureDateOfBirth = Error ''Date of birth cannot be in the future.''"

subsection \<open>A page and a host for the examples\<close>

text \<open>
  A host that parses five ISO dates (UTC midnight), prints integers in decimal without
  grouping and non-negative quotients with one decimal place, and a page that has every
  element and shows nothing yet.
\<close>

fun digits :: "nat \<Rightarrow> string" where
  "digits n = (if n < 10 then [char_of (48 + n)]
               else digits (n div 10) @ [char_of (48 + n mod 10)])"

declare digits.simps [simp del]

definition exampleHost :: host where
  "exampleHost =
     \<lparr> parseDate = map_of
         [(''1900-01-01'', - 2208988800000), (''1930-01-01'', - 1262304000000),
          (''2000-01-01'', 946684800000), (''2025-11-01'', 1761955200000),
          (''2030-01-01'', 1893456000000)],
       toFixed1 = (\<lambda>q. let t = nat \<lfloor>q * 10 + 1 / 2\<rfloor>
                        in digits (t div 10) @ ''.'' @ digits (t mod 10)),
       toLocaleString = (\<lambda>n. if n < 0 then ''-'' @ digits (nat (- n)) else digits (nat n)) \<rparr>"

definition examplePage :: "int \<Rightarrow> world" where
  "examplePage now =
     \<lparr> clock = now, gridEl = [], isFresh = False,
       ageEl = Some ''-'', livedEl = Some ''-'', remainingEl = Some ''-'',
       dobErrorEl = Some \<lparr> textContent = [], errorClass = False \<rparr>, console = [] \<rparr>"

section \<open>The grid in closed form\<close>

lemma map_upt_step: "map f [a ..< a + Suc n] = f a # map f [Suc a ..< Suc a + n]"
  by (subst upt_rec) simp

lemma weekLoop_eq:
  "0 \<le> week \<Longrightarrow> week \<le> 52 \<Longrightarrow> 0 \<le> g \<Longrightarrow>
   weekLoop T L week g cs =
     (cs @ map (tag L) [nat g ..< nat g + nat (min (52 - week) (T - g))],
      g + max 0 (min (52 - week) (T - g)))"
proof (induction T L week g cs rule: weekLoop.induct)
  case (1 T L week g cs)
  show ?case
  proof (cases "week < 52 \<and> g < T")
    case True
    then have k: "nat (min (52 - week) (T - g)) = Suc (nat (min (52 - (week + 1)) (T - (g + 1))))"
      by linarith
    have g1: "nat (g + 1) = Suc (nat g)" using "1.prems" by linarith
    have m: "max 0 (min (52 - week) (T - g)) = 1 + max 0 (min (52 - (week + 1)) (T - (g + 1)))"
      using True by linarith
    have t: "(if g < L then Past else Future) = tag L (nat g)"
      using "1.prems" by (simp add: tag_def)
    have "weekLoop T L week g cs = weekLoop T L (week + 1) (g + 1) (cs @ [if g < L then Past else Future])"
      using True by (subst weekLoop.simps) (simp add: WEEKS_PER_YEAR_def)
    also have "\<dots> = ((cs @ [if g < L then Past else Future]) @ map (tag L) [nat (g+1) ..< nat (g+1) + nat (min (52 - (week+1)) (T - (g+1)))],
      (g+1) + max 0 (min (52 - (week+1)) (T - (g+1))))"
      using True "1.prems" by (intro "1.IH") (simp_all add: WEEKS_PER_YEAR_def)
    also have "\<dots> = (cs @ map (tag L) [nat g ..< nat g + nat (min (52 - week) (T - g))],
      g + max 0 (min (52 - week) (T - g)))"
      unfolding k m g1 t map_upt_step by simp
    finally show ?thesis .
  next
    case False
    have "weekLoop T L week g cs =
            (if week < 52 then if g \<ge> T then (cs, g)
               else weekLoop T L (week + 1) (g + 1) (cs @ [if g < L then Past else Future])
             else (cs, g))"
      by (subst weekLoop.simps) (simp add: WEEKS_PER_YEAR_def)
    with False have "weekLoop T L week g cs = (cs, g)"
      by (cases "week < 52") simp_all
    moreover have "nat (min (52 - week) (T - g)) = 0" "max 0 (min (52 - week) (T - g)) = 0"
      using False by linarith+
    ultimately show ?thesis by simp
  qed
qed


lemma yearLoop_stop: "\<not> year < 90 \<Longrightarrow> yearLoop T L year g rows = rows"
  by (subst yearLoop.simps) (simp add: AVERAGE_LIFESPAN_YEARS_def)

lemma yearLoop_step:
  assumes "0 \<le> g" "year < 90"
  shows "yearLoop T L year g rows =
           (if T \<le> g + 52 then rows @ [yearRow T L year g]
            else yearLoop T L (year + 1) (g + 52) (rows @ [yearRow T L year g]))"
proof -
  have w: "weekLoop T L 0 g [] =
             (map (tag L) [nat g ..< nat g + nat (min 52 (T - g))], g + max 0 (min 52 (T - g)))"
    using weekLoop_eq [of 0 g T L "[]"] assms(1) by simp
  have stop: "T \<le> g + max 0 (min 52 (T - g)) \<longleftrightarrow> T \<le> g + 52"
    by linarith
  have more: "\<not> T \<le> g + 52 \<Longrightarrow> g + max 0 (min 52 (T - g)) = g + 52"
    by linarith
  show ?thesis
    using assms(2) more
    by (subst yearLoop.simps)
       (simp add: w stop yearRow_def AVERAGE_LIFESPAN_YEARS_def Let_def)
qed

lemma concat_yearLoop:
  "0 \<le> g \<Longrightarrow> year \<le> 90 \<Longrightarrow>
   concat (map cells (yearLoop T L year g rows)) =
     concat (map cells rows) @
     map (tag L) [nat g ..< nat g + nat (min (T - g) (52 * (90 - year)))]"
proof (induction "nat (90 - year)" arbitrary: year g rows)
  case 0
  then have "year = 90" by simp
  then show ?case by (simp add: yearLoop_stop)
next
  case (Suc n)
  then have y: "year < 90" by linarith
  show ?case
  proof (cases "T \<le> g + 52")
    case True
    then have "min (T - g) (52 * (90 - year)) = min 52 (T - g)"
      using y by (simp add: min_def)
    then show ?thesis
      using True Suc.prems y by (simp add: yearLoop_step yearRow_def)
  next
    case False
    have n: "n = nat (90 - (year + 1))" using Suc.hyps(2) by linarith
    have ih: "concat (map cells (yearLoop T L (year + 1) (g + 52) (rows @ [yearRow T L year g]))) =
          concat (map cells (rows @ [yearRow T L year g])) @
          map (tag L) [nat (g + 52) ..< nat (g + 52) + nat (min (T - (g + 52)) (52 * (90 - (year + 1))))]"
      using Suc.prems y by (intro Suc.hyps(1) [OF n]) simp_all
    define m where "m = nat (min (T - (g + 52)) (52 * (90 - (year + 1))))"
    have a: "nat (min 52 (T - g)) = 52" using False by linarith
    have b: "nat (g + 52) = nat g + 52" using Suc.prems by linarith
    have c: "nat (min (T - g) (52 * (90 - year))) = 52 + m"
      unfolding m_def using False y by (simp add: min_def) linarith
    have d: "[nat g ..< nat g + (52 + m)] = [nat g ..< nat g + 52] @ [nat g + 52 ..< nat g + 52 + m]"
      using upt_add_eq_append [of "nat g" "nat g + 52" m] by (simp add: add.assoc)
    have "yearLoop T L year g rows = yearLoop T L (year + 1) (g + 52) (rows @ [yearRow T L year g])"
      using False Suc.prems y by (simp add: yearLoop_step)
    then have "concat (map cells (yearLoop T L year g rows)) =
        concat (map cells (rows @ [yearRow T L year g])) @ map (tag L) [nat g + 52 ..< nat g + 52 + m]"
      using ih unfolding m_def b by simp
    also have "concat (map cells (rows @ [yearRow T L year g])) =
        concat (map cells rows) @ map (tag L) [nat g ..< nat g + 52]"
      by (simp add: yearRow_def a)
    finally show ?thesis
      unfolding c d by simp
  qed
qed


lemma length_cells_yearRow: "length (cells (yearRow T L year g)) = nat (min 52 (T - g))"
  by (simp add: yearRow_def)

lemma ceil_small: "(d::int) \<le> 52 \<Longrightarrow> (d + 51) div 52 \<le> 1"
  using zdiv_mono1 [of "d + 51" 103 52] by simp

lemma ceil_step: "((d::int) + 51) div 52 = (d - 52 + 51) div 52 + 1"
  using div_add_self2 [of 52 "d - 52 + 51"] by simp

lemma ceil_big: "\<not> (d::int) \<le> 52 \<Longrightarrow> 2 \<le> (d + 51) div 52"
  using zdiv_mono1 [of 104 "d + 51" 52] by simp

lemma count_last: "(c::int) \<le> 1 \<Longrightarrow> max 1 (nat (min (90 - y) c)) = 1"
  by linarith

lemma count_step: "2 \<le> (c::int) \<Longrightarrow> y + 1 < 90 \<Longrightarrow>
   1 + max 1 (nat (min (90 - (y + 1)) (c - 1))) = max 1 (nat (min (90 - y) c))"
  by linarith

lemma count_bound: "2 \<le> (c::int) \<Longrightarrow> max 1 (nat (min (90 - 89) c)) = 1"
  by linarith

lemma length_yearLoop:
  "0 \<le> g \<Longrightarrow> year < 90 \<Longrightarrow>
   length (yearLoop T L year g rows) =
     length rows + max 1 (nat (min (90 - year) ((T - g + 51) div 52)))"
proof (induction "nat (90 - year)" arbitrary: year g rows)
  case 0
  then show ?case by simp
next
  case (Suc n)
  define c where "c = (T - g + 51) div 52"
  show ?case
  proof (cases "T \<le> g + 52")
    case True
    then have "c \<le> 1" unfolding c_def by (intro ceil_small) simp
    then have "max 1 (nat (min (90 - year) c)) = 1" by (rule count_last)
    moreover have "yearLoop T L year g rows = rows @ [yearRow T L year g]"
      using True Suc.prems by (simp add: yearLoop_step)
    ultimately show ?thesis unfolding c_def by simp
  next
    case False
    have step: "yearLoop T L year g rows =
                  yearLoop T L (year + 1) (g + 52) (rows @ [yearRow T L year g])"
      using False Suc.prems by (simp add: yearLoop_step)
    have q: "(T - (g + 52) + 51) div 52 = c - 1"
      unfolding c_def using ceil_step [of "T - g"] by (simp add: algebra_simps)
    have q2: "2 \<le> c" unfolding c_def using False by (intro ceil_big) simp
    show ?thesis
    proof (cases "year + 1 < 90")
      case True
      have n: "n = nat (90 - (year + 1))" using Suc.hyps(2) by linarith
      have "length (yearLoop T L (year + 1) (g + 52) (rows @ [yearRow T L year g])) =
              length (rows @ [yearRow T L year g]) +
              max 1 (nat (min (90 - (year + 1)) ((T - (g + 52) + 51) div 52)))"
        using Suc.prems True by (intro Suc.hyps(1) [OF n]) simp_all
      then have "length (yearLoop T L year g rows) =
              length rows + (1 + max 1 (nat (min (90 - (year + 1)) (c - 1))))"
        unfolding step q by simp
      also have "1 + max 1 (nat (min (90 - (year + 1)) (c - 1))) = max 1 (nat (min (90 - year) c))"
        using q2 True by (rule count_step)
      finally show ?thesis unfolding c_def .
    next
      case False
      then have y: "year = 89" using Suc.prems by linarith
      have "yearLoop T L (year + 1) (g + 52) (rows @ [yearRow T L year g]) =
              rows @ [yearRow T L year g]"
        using y by (intro yearLoop_stop) simp
      then have "length (yearLoop T L year g rows) = length rows + 1"
        unfolding step by simp
      also have "1 = max 1 (nat (min (90 - year) c))"
        unfolding y using q2 by (rule count_bound [symmetric])
      finally show ?thesis unfolding c_def .
    qed
  qed
qed

lemma rows_yearLoop:
  "0 \<le> g \<Longrightarrow> \<forall>r \<in> set rows. length (cells r) = 52 \<Longrightarrow>
   (\<forall>r \<in> set (butlast (yearLoop T L year g rows)). length (cells r) = 52) \<and>
   (\<forall>r \<in> set (yearLoop T L year g rows). length (cells r) \<le> 52)"
proof (induction "nat (90 - year)" arbitrary: year g rows)
  case 0
  then have "\<not> year < 90" by simp
  then have "yearLoop T L year g rows = rows" by (rule yearLoop_stop)
  with "0.prems" show ?case by (auto dest: in_set_butlastD)
next
  case (Suc n)
  then have y: "year < 90" by linarith
  show ?case
  proof (cases "T \<le> g + 52")
    case True
    then have "yearLoop T L year g rows = rows @ [yearRow T L year g]"
      using Suc.prems y by (simp add: yearLoop_step)
    with Suc.prems show ?thesis by (auto simp: length_cells_yearRow)
  next
    case False
    have step: "yearLoop T L year g rows =
                  yearLoop T L (year + 1) (g + 52) (rows @ [yearRow T L year g])"
      using False Suc.prems y by (simp add: yearLoop_step)
    have n: "n = nat (90 - (year + 1))" using Suc.hyps(2) by linarith
    have full: "length (cells (yearRow T L year g)) = 52"
      using False by (simp add: length_cells_yearRow)
    show ?thesis
      unfolding step using Suc.prems full
      by (intro Suc.hyps(1) [OF n]) auto
  qed
qed

lemma cells_gridRows:
  "concat (map cells (gridRows tw wl)) =
     map (tag (min (max 0 wl) (max 0 tw))) [0 ..< nat (min (max 0 tw) 4680)]"
proof -
  have "concat (map cells (yearLoop (max 0 tw) (min (max 0 wl) (max 0 tw)) 0 0 [])) =
          concat (map cells ([] :: row list)) @
          map (tag (min (max 0 wl) (max 0 tw)))
            [nat 0 ..< nat 0 + nat (min (max 0 tw - 0) (52 * (90 - 0)))]"
    by (rule concat_yearLoop) simp_all
  then show ?thesis
    unfolding gridRows_def Let_def by simp
qed

lemma length_gridRows:
  "length (gridRows tw wl) = max 1 (nat (min 90 ((max 0 tw + 51) div 52)))"
proof -
  have "length (yearLoop (max 0 tw) (min (max 0 wl) (max 0 tw)) 0 0 []) =
          length ([] :: row list) + max 1 (nat (min (90 - 0) ((max 0 tw - 0 + 51) div 52)))"
    by (rule length_yearLoop) simp_all
  then show ?thesis
    unfolding gridRows_def Let_def by (simp only: list.size diff_zero add_0)
qed

lemma rows_gridRows:
  "(\<forall>r \<in> set (butlast (gridRows tw wl)). length (cells r) = 52) \<and>
   (\<forall>r \<in> set (gridRows tw wl). length (cells r) \<le> 52)"
  unfolding gridRows_def Let_def by (rule rows_yearLoop) simp_all

section \<open>Rounding to a double\<close>

lemma ilog2_bounds:
  assumes "0 < q"
  shows "2 powi ilog2 q \<le> q" and "q < 2 powi (ilog2 q + 1)"
proof -
  obtain a b where ab: "quotient_of q = (a, b)" by (cases "quotient_of q")
  have b: "0 < b" using ab by (rule quotient_of_denom_pos)
  have q: "q = of_int a / of_int b" using ab by (rule quotient_of_div)
  have a: "0 < a" using assms b unfolding q by (simp add: zero_less_divide_iff)
  define la lb where "la = bitlen a" and "lb = bitlen b"
  have la: "1 \<le> la" and lb: "1 \<le> lb"
    using a b unfolding la_def lb_def by (simp_all add: bitlen_ge_iff_power)
  have "2 ^ nat (la - 1) \<le> a" "a < 2 ^ nat la" "2 ^ nat (lb - 1) \<le> b" "b < 2 ^ nat lb"
    using bitlen_bounds [OF a] bitlen_bounds [OF b] unfolding la_def lb_def by simp_all
  then have "(2::rat) ^ nat (la - 1) \<le> of_int a" "(of_int a :: rat) < 2 ^ nat la"
    "(2::rat) ^ nat (lb - 1) \<le> of_int b" "(of_int b :: rat) < 2 ^ nat lb"
    by (metis of_int_le_iff of_int_less_iff of_int_numeral of_int_power)+
  then have A: "(2::rat) powi (la - 1) \<le> of_int a" "(of_int a :: rat) < 2 powi la"
    and B: "(2::rat) powi (lb - 1) \<le> of_int b" "(of_int b :: rat) < 2 powi lb"
    using la lb by (simp_all add: power_int_def)
  have bq: "(0::rat) < of_int b" using b by simp
  have lo: "2 powi (la - lb - 1) < q"
  proof -
    have "2 powi (la - lb - 1) * of_int b < (2::rat) powi (la - lb - 1) * 2 powi lb"
      using B(2) by (intro mult_strict_left_mono) simp_all
    also have "\<dots> = 2 powi (la - 1)"
      by (simp flip: power_int_add)
    also have "\<dots> \<le> of_int a" by (rule A(1))
    finally show ?thesis unfolding q using bq by (simp add: pos_less_divide_eq)
  qed
  have hi: "q < 2 powi (la - lb + 1)"
  proof -
    have "of_int a < (2::rat) powi la" by (rule A(2))
    also have "\<dots> = 2 powi (la - lb + 1) * 2 powi (lb - 1)"
      by (simp flip: power_int_add)
    also have "\<dots> \<le> 2 powi (la - lb + 1) * of_int b"
      using B(1) by (intro mult_left_mono) simp_all
    finally show ?thesis unfolding q using bq by (simp add: pos_divide_less_eq)
  qed
  have e: "ilog2 q = (if 2 powi (la - lb) \<le> q then la - lb else la - lb - 1)"
    by (simp add: ilog2_def ab la_def lb_def Let_def)
  show "2 powi ilog2 q \<le> q"
    unfolding e using lo by simp
  show "q < 2 powi (ilog2 q + 1)"
    unfolding e using hi by (simp add: not_le)
qed


lemma roundHalfEven_of_int: "roundHalfEven (of_int k) = k"
  by (simp add: roundHalfEven_def)

lemma roundHalfEven_error: "\<bar>of_int (roundHalfEven m) - m\<bar> \<le> 1 / 2"
proof -
  define f where "f = m - of_int \<lfloor>m\<rfloor>"
  have f: "0 \<le> f" "f < 1"
    unfolding f_def by linarith+
  have m: "m = of_int \<lfloor>m\<rfloor> + f"
    unfolding f_def by simp
  have r: "roundHalfEven m =
        (if f < 1 / 2 then \<lfloor>m\<rfloor> else if f > 1 / 2 then \<lfloor>m\<rfloor> + 1
         else if even \<lfloor>m\<rfloor> then \<lfloor>m\<rfloor> else \<lfloor>m\<rfloor> + 1)"
    by (simp add: roundHalfEven_def Let_def f_def)
  have "\<bar>of_int (roundHalfEven m) - (of_int \<lfloor>m\<rfloor> + f)\<bar> \<le> 1 / 2"
    unfolding r using f by (simp add: abs_if)
  then show ?thesis using m by simp
qed

lemma double_error:
  assumes "0 < q"
  shows "\<bar>double q - q\<bar> \<le> q / 2 ^ 53"
proof -
  define u :: rat where "u = 2 powi (ilog2 q - 52)"
  have u: "0 < u" unfolding u_def by simp
  have d: "double q = of_int (roundHalfEven (q / u)) * u"
    using assms by (simp add: double_def u_def Let_def)
  have "u = 2 powi ilog2 q / 2 ^ 52"
    unfolding u_def by (simp add: power_int_diff)
  also have "\<dots> \<le> q / 2 ^ 52"
    using ilog2_bounds(1) [OF assms] by (simp add: divide_right_mono)
  finally have uq: "u \<le> q / 2 ^ 52" .
  have "double q - q = (of_int (roundHalfEven (q / u)) - q / u) * u"
    unfolding d using u by (simp add: algebra_simps)
  then have "\<bar>double q - q\<bar> = \<bar>of_int (roundHalfEven (q / u)) - q / u\<bar> * u"
    using u by (simp add: abs_mult)
  also have "\<dots> \<le> (1 / 2) * u"
    using u by (intro mult_right_mono roundHalfEven_error) simp
  also have "\<dots> \<le> (1 / 2) * (q / 2 ^ 52)"
    using uq by simp
  finally show ?thesis by simp
qed

lemma double_of_int:
  assumes "0 \<le> n" "n < 2 ^ 53"
  shows "double (of_int n) = of_int n"
proof (cases "n = 0")
  case True
  then show ?thesis by (simp add: double_def)
next
  case False
  define q :: rat where "q = of_int n"
  have q: "0 < q" using assms False by (simp add: q_def)
  define e where "e = ilog2 q"
  have "2 powi e \<le> q" unfolding e_def using q by (rule ilog2_bounds)
  also have "q < 2 ^ 53" unfolding q_def using assms(2)
    by (metis of_int_less_iff of_int_numeral of_int_power)
  finally have "(2::rat) powi e < 2 powi 53" by simp
  then have "e < 53"
    by (rule power_int_le_imp_less_exp [rotated]) simp_all
  then have e: "e \<le> 52" by simp
  define d where "d = nat (52 - e)"
  have u: "(2::rat) powi (e - 52) = 1 / 2 ^ d"
    using e by (simp add: d_def power_int_def field_simps)
  have "q / (1 / 2 ^ d) = of_int (n * 2 ^ d)"
    by (simp add: q_def)
  then have "roundHalfEven (q / (1 / 2 ^ d)) = n * 2 ^ d"
    by (simp only: roundHalfEven_of_int)
  then have "double q = of_int (n * 2 ^ d) * (1 / 2 ^ d)"
    using q by (simp add: double_def Let_def e_def [symmetric] u)
  then show ?thesis by (simp add: q_def)
qed

lemma floor_double_divide:
  assumes "0 \<le> a" "a < 2 ^ 53" "0 < b"
  shows "\<lfloor>double (of_int a / of_int b)\<rfloor> = a div b"
proof (cases "a mod b = 0")
  case True
  then have ab: "a = (a div b) * b"
    using div_mult_mod_eq [of a b] by simp
  have "(of_int a :: rat) / of_int b = of_int (a div b)"
    using assms(3) by (subst ab) simp
  moreover have n0: "0 \<le> a div b"
    using assms by (simp add: pos_imp_zdiv_nonneg_iff)
  moreover have "a div b < 2 ^ 53"
  proof -
    have "(a div b) * 1 \<le> (a div b) * b"
      using n0 assms(3) by (intro mult_left_mono) simp_all
    then show ?thesis using ab assms(2) by linarith
  qed
  ultimately show ?thesis
    by (simp add: double_of_int)
next
  case False
  define n r where "n = a div b" and "r = a mod b"
  define x :: rat where "x = of_int a / of_int b"
  have r: "1 \<le> r" "r \<le> b - 1"
    using False assms(3) pos_mod_sign [of b a] pos_mod_bound [of b a] unfolding r_def by linarith+
  have a: "a = n * b + r" unfolding n_def r_def by simp
  have bq: "(0::rat) < of_int b" using assms(3) by simp
  have x: "x = of_int n + of_int r / of_int b"
    unfolding x_def a using bq by (simp add: field_simps)
  have apos: "0 < a" using False assms(1) by (cases "a = 0") simp_all
  then have xpos: "0 < x" unfolding x_def using bq by simp
  have "(of_int a :: rat) < 2 ^ 53" using assms(2)
    by (metis of_int_less_iff of_int_numeral of_int_power)
  then have "x / 2 ^ 53 < 1 / of_int b"
    unfolding x_def using bq by (simp add: field_simps)
  with double_error [OF xpos] have err: "\<bar>double x - x\<bar> < 1 / of_int b" by simp
  have "(1::rat) / of_int b \<le> of_int r / of_int b"
    using r(1) bq by (simp add: divide_right_mono)
  then have lo: "of_int n < double x" using err unfolding x by (simp add: abs_if split: if_splits)
  have "(of_int r :: rat) / of_int b \<le> (of_int b - 1) / of_int b"
    using r(2) bq by (intro divide_right_mono) (simp_all flip: of_int_diff add: of_int_le_iff)
  also have "\<dots> = 1 - 1 / of_int b" using bq by (simp add: field_simps)
  finally have "of_int r / of_int b + 1 / of_int b \<le> (1::rat)" by simp
  then have hi: "double x < of_int n + 1" using err unfolding x by (simp add: abs_if split: if_splits)
  show ?thesis
    unfolding x_def [symmetric] n_def [symmetric] using lo hi by (intro floor_unique) simp_all
qed

lemma double_nonneg: "0 \<le> q \<Longrightarrow> 0 \<le> double q"
proof (cases "q = 0")
  case True
  then show ?thesis by (simp add: double_def)
next
  case False
  assume "0 \<le> q"
  then have "0 \<le> q / 2 powi (ilog2 \<bar>q\<bar> - 52)"
    by simp
  then have "0 \<le> \<lfloor>q / 2 powi (ilog2 \<bar>q\<bar> - 52)\<rfloor>"
    by simp
  then have "0 \<le> roundHalfEven (q / 2 powi (ilog2 \<bar>q\<bar> - 52))"
    by (simp add: roundHalfEven_def Let_def)
  then show ?thesis
    using False by (simp add: double_def Let_def)
qed

lemma tenth_le_double: "1 / 10 \<le> double (1 / 10)"
  by code_simp

lemma double_tenth_less: "double (1 / 10) < 110"
  by code_simp

section \<open>calculateWeeks\<close>

lemma calculateWeeks_call_eq: "calculateWeeks_call dob w = (calculateWeeks w dob, w)"
  by (simp add: calculateWeeks_def calculateWeeks_call_def Let_def)

lemma calculateWeeks_Inr:
  assumes "dob \<le> clock w"
  shows "calculateWeeks w dob =
           Inr \<lparr> totalWeeks = 4680,
                 weeksLived = \<lfloor>double (double (of_int (clock w - dob)) / 604800000)\<rfloor>,
                 yearsLived = double (double (of_int (clock w - dob)) / 31557600000) \<rparr>"
proof -
  have wk: "(1000 * 60 * 60 * 24 * 7 :: rat) = 604800000"
    by simp
  have yr: "(1000 * 60 * 60 * 24 * 365.25 :: rat) = 31557600000"
    by simp
  have tw: "AVERAGE_LIFESPAN_YEARS * WEEKS_PER_YEAR = 4680"
    by (simp add: AVERAGE_LIFESPAN_YEARS_def WEEKS_PER_YEAR_def)
  have df: "(of_int (clock w) :: rat) - of_int dob = of_int (clock w - dob)"
    by simp
  have "\<not> dob > clock w" using assms by simp
  then show ?thesis
    unfolding calculateWeeks_def calculateWeeks_call_def Let_def wk yr tw df
    by (simp only: if_False fst_conv)
qed

lemma calculateWeeks_exact:
  assumes "dob \<le> clock w" and "clock w - dob < 2 ^ 53"
  shows "calculateWeeks w dob =
           Inr \<lparr> totalWeeks = 4680,
                 weeksLived = (clock w - dob) div 604800000,
                 yearsLived = double (of_int (clock w - dob) / 31557600000) \<rparr>"
proof -
  have nn: "0 \<le> clock w - dob" using assms(1) by simp
  have ms: "double (of_int (clock w - dob)) = of_int (clock w - dob)"
    using nn assms(2) by (rule double_of_int)
  have "\<lfloor>double (of_int (clock w - dob) / of_int 604800000)\<rfloor> = (clock w - dob) div 604800000"
    using nn assms(2) by (rule floor_double_divide) simp
  then have fl: "\<lfloor>double (of_int (clock w - dob) / 604800000)\<rfloor> = (clock w - dob) div 604800000"
    by simp
  show ?thesis
    unfolding calculateWeeks_Inr [OF assms(1)] ms fl ..
qed

lemma calculateWeeks_Inl:
  "dob > clock w \<Longrightarrow> calculateWeeks w dob = Inl FutureDateOfBirth"
  by (simp add: calculateWeeks_def calculateWeeks_call_def FutureDateOfBirth_def)

text \<open>
  C1, as the specification states it, fails: the elapsed milliseconds are a double, and
  beyond \<open>2 ^ 53\<close> the subtraction rounds. With \<open>now\<close> the last valid time value and \<open>dob\<close>
  one millisecond after \<open>now\<close> less 16777217 weeks, \<open>weeksLived\<close> is 16777217 where the
  exact floor division gives 16777216.
\<close>

theorem calculateWeeks_weeksLived_counterexample:
  "- 1506860841599999 \<le> clock (examplePage 8640000000000000) \<and>
   calculateWeeks (examplePage 8640000000000000) (- 1506860841599999) =
     Inr \<lparr> totalWeeks = 4680, weeksLived = 16777217,
           yearsLived = double (10146860841600000 / 31557600000) \<rparr> \<and>
   (clock (examplePage 8640000000000000) - (- 1506860841599999)) div (7 * 24 * 60 * 60 * 1000)
     = 16777216"
proof -
  have c: "clock (examplePage 8640000000000000) = 8640000000000000"
    by (simp add: examplePage_def)
  have ms: "double (of_int 10146860841599999) = 10146860841600000"
    by code_simp
  have wk: "\<lfloor>double (10146860841600000 / 604800000)\<rfloor> = 16777217"
    by code_simp
  have le: "- 1506860841599999 \<le> clock (examplePage 8640000000000000)"
    unfolding c by simp
  have "calculateWeeks (examplePage 8640000000000000) (- 1506860841599999) =
     Inr \<lparr> totalWeeks = 4680, weeksLived = \<lfloor>double (10146860841600000 / 604800000)\<rfloor>,
           yearsLived = double (10146860841600000 / 31557600000) \<rparr>"
    unfolding calculateWeeks_Inr [OF le] c using ms by simp
  then show ?thesis
    unfolding wk c by simp
qed

text \<open>
  C1, amended. Whenever \<open>dob \<le> now\<close>, \<open>calculateWeeks\<close> returns and \<open>weeksLived\<close> is a
  non-negative integer; when moreover the elapsed milliseconds \<open>now - dob\<close> are below
  \<open>2 ^ 53\<close>, \<open>weeksLived\<close> is their integer floor division by the milliseconds of a week,
  \<open>7 * 24 * 60 * 60 * 1000\<close>. It may exceed \<open>totalWeeks\<close>: at every clock reading some date
  of birth gives more weeks lived than the model has.
\<close>

theorem calculateWeeks_weeksLived:
  "(dob \<le> clock w \<longrightarrow>
      (\<exists>r. calculateWeeks w dob = Inr r \<and> 0 \<le> weeksLived r \<and>
           (clock w - dob < 2 ^ 53 \<longrightarrow>
              weeksLived r = (clock w - dob) div (7 * 24 * 60 * 60 * 1000)))) \<and>
   (\<exists>dob' \<le> clock w. \<exists>r. calculateWeeks w dob' = Inr r \<and> totalWeeks r < weeksLived r)"
proof (intro conjI impI)
  assume le: "dob \<le> clock w"
  have "0 \<le> double (of_int (clock w - dob))"
    using le by (intro double_nonneg) simp
  then have "0 \<le> double (double (of_int (clock w - dob)) / 604800000)"
    by (intro double_nonneg) simp
  then have nn: "0 \<le> \<lfloor>double (double (of_int (clock w - dob)) / 604800000)\<rfloor>"
    by simp
  have ex: "clock w - dob < 2 ^ 53 \<Longrightarrow>
      \<lfloor>double (double (of_int (clock w - dob)) / 604800000)\<rfloor> = (clock w - dob) div 604800000"
    using calculateWeeks_exact [OF le] unfolding calculateWeeks_Inr [OF le] by simp
  show "\<exists>r. calculateWeeks w dob = Inr r \<and> 0 \<le> weeksLived r \<and>
           (clock w - dob < 2 ^ 53 \<longrightarrow>
              weeksLived r = (clock w - dob) div (7 * 24 * 60 * 60 * 1000))"
    unfolding calculateWeeks_Inr [OF le] using nn ex by simp
next
  define dob' where "dob' = clock w - 4681 * 604800000"
  have le: "dob' \<le> clock w" by (simp add: dob'_def)
  have lt: "clock w - dob' < 2 ^ 53" by (simp add: dob'_def)
  have "(clock w - dob') div 604800000 = 4681"
    by (simp add: dob'_def)
  then have "\<exists>r. calculateWeeks w dob' = Inr r \<and> totalWeeks r < weeksLived r"
    by (simp add: calculateWeeks_exact [OF le lt])
  with le show "\<exists>dob' \<le> clock w. \<exists>r. calculateWeeks w dob' = Inr r \<and> totalWeeks r < weeksLived r"
    by blast
qed

theorem calculateWeeks_weeksLived_witness:
  "946684800000 \<le> clock (examplePage 1762128000000) \<and>
   clock (examplePage 1762128000000) - 946684800000 < 2 ^ 53 \<and>
   (\<exists>r. calculateWeeks (examplePage 1762128000000) 946684800000 = Inr r \<and>
        0 \<le> weeksLived r \<and> weeksLived r = 1348)"
  using calculateWeeks_weeksLived [of 946684800000 "examplePage 1762128000000"]
  by (simp add: examplePage_def)

text \<open>
  C4. Whenever \<open>dob \<le> now\<close>, \<open>totalWeeks\<close> is the constant \<open>90 * 52 = 4680\<close>, whatever
  the two dates are.
\<close>

theorem calculateWeeks_totalWeeks:
  "dob \<le> clock w \<Longrightarrow>
   \<exists>r. calculateWeeks w dob = Inr r \<and> totalWeeks r = 90 * 52 \<and> totalWeeks r = 4680"
  by (simp add: calculateWeeks_Inr)

theorem calculateWeeks_totalWeeks_witness:
  "- 2208988800000 \<le> clock (examplePage 1762128000000) \<and>
   (\<exists>r. calculateWeeks (examplePage 1762128000000) (- 2208988800000) = Inr r \<and>
        totalWeeks r = 4680)"
  using calculateWeeks_totalWeeks [of "- 2208988800000" "examplePage 1762128000000"]
  by (simp add: examplePage_def)

section \<open>renderWeeksGrid\<close>

lemma safeLived_clamp: "min (max 0 wl) (max 0 tw) = clamp wl 0 (max 0 tw)"
  by (simp add: clamp_def min_def max_def)

text \<open>
  C2. For all integers \<open>totalWeeks\<close> and \<open>weeksLived\<close>, negative ones and
  \<open>weeksLived > totalWeeks\<close> included, the cell at zero-based row-major index \<open>i\<close> of the
  grid is tagged past if and only if \<open>i < clamp(weeksLived, 0, max(0, totalWeeks))\<close>, and
  is tagged future otherwise.
\<close>

theorem gridRows_tags:
  "\<forall>i < length (concat (map cells (gridRows tw wl))).
     concat (map cells (gridRows tw wl)) ! i =
       (if int i < clamp wl 0 (max 0 tw) then Past else Future) \<and>
     (concat (map cells (gridRows tw wl)) ! i = Past \<longleftrightarrow> int i < clamp wl 0 (max 0 tw))"
proof (intro allI impI)
  fix i
  assume "i < length (concat (map cells (gridRows tw wl)))"
  then have i: "i < nat (min (max 0 tw) 4680)"
    unfolding cells_gridRows by simp
  then have "concat (map cells (gridRows tw wl)) ! i = tag (clamp wl 0 (max 0 tw)) i"
    unfolding cells_gridRows safeLived_clamp by simp
  then show "concat (map cells (gridRows tw wl)) ! i =
       (if int i < clamp wl 0 (max 0 tw) then Past else Future) \<and>
     (concat (map cells (gridRows tw wl)) ! i = Past \<longleftrightarrow> int i < clamp wl 0 (max 0 tw))"
    by (simp add: tag_def)
qed

theorem gridRows_tags_witness:
  "2 < length (concat (map cells (gridRows 3 7))) \<and>
   concat (map cells (gridRows 3 7)) ! 2 = Past \<and>
   0 < length (concat (map cells (gridRows 5 (- 3)))) \<and>
   concat (map cells (gridRows 5 (- 3))) ! 0 = Future"
proof -
  have a: "2 < length (concat (map cells (gridRows 3 7)))"
    by code_simp
  have b: "0 < length (concat (map cells (gridRows 5 (- 3))))"
    by code_simp
  show ?thesis
    using gridRows_tags [of 3 7, rule_format, OF a] gridRows_tags [of 5 "- 3", rule_format, OF b] a b
    by (simp add: clamp_def)
qed

text \<open>
  C3, as the specification states it, fails: the cells of the grid do not number
  \<open>max(0, totalWeeks)\<close> once \<open>totalWeeks\<close> exceeds \<open>90 * 52\<close>. At \<open>totalWeeks = 4681\<close> the
  outer loop ends by its bound of 90 rows with 4680 cells emitted.
\<close>

theorem gridRows_count_counterexample:
  "length (concat (map cells (gridRows 4681 0))) \<noteq> nat (max 0 4681)"
  by (simp add: cells_gridRows)

text \<open>
  C3, amended. For \<open>totalWeeks \<le> 4680\<close> the cells of all rows number
  \<open>safeTotal = max(0, totalWeeks)\<close>, and the rows number \<open>\<lceil>safeTotal / 52\<rceil>\<close> (one, and
  empty, when \<open>safeTotal = 0\<close>): no row and no cell is emitted once the global index has
  reached \<open>safeTotal\<close>. For every \<open>totalWeeks\<close>, each row but the last has exactly 52
  cells and the last has at most 52.
\<close>

theorem gridRows_partition:
  "(tw \<le> 4680 \<longrightarrow> length (concat (map cells (gridRows tw wl))) = nat (max 0 tw)) \<and>
   (tw \<le> 4680 \<longrightarrow> length (gridRows tw wl) = max 1 (nat ((max 0 tw + 51) div 52))) \<and>
   (\<forall>r \<in> set (butlast (gridRows tw wl)). length (cells r) = 52) \<and>
   (\<forall>r \<in> set (gridRows tw wl). length (cells r) \<le> 52)"
proof (intro conjI impI)
  assume "tw \<le> 4680"
  then show "length (concat (map cells (gridRows tw wl))) = nat (max 0 tw)"
    unfolding cells_gridRows by simp
next
  assume le: "tw \<le> 4680"
  then have "(max 0 tw + 51) div 52 \<le> 4731 div 52"
    by (intro zdiv_mono1) simp_all
  then have "min 90 ((max 0 tw + 51) div 52) = (max 0 tw + 51) div 52"
    by simp
  then show "length (gridRows tw wl) = max 1 (nat ((max 0 tw + 51) div 52))"
    unfolding length_gridRows by simp
qed (simp_all add: rows_gridRows)

theorem gridRows_partition_witness:
  "(105 :: int) \<le> 4680 \<and>
   length (concat (map cells (gridRows 105 0))) = 105 \<and>
   length (gridRows 105 0) = 3 \<and>
   hd (gridRows 105 0) \<in> set (butlast (gridRows 105 0)) \<and>
   length (cells (hd (gridRows 105 0))) = 52 \<and>
   last (gridRows 105 0) \<in> set (gridRows 105 0) \<and>
   length (cells (last (gridRows 105 0))) \<le> 52"
proof -
  have a: "hd (gridRows 105 0) \<in> set (butlast (gridRows 105 0))"
    by code_simp
  have b: "last (gridRows 105 0) \<in> set (gridRows 105 0)"
    by code_simp
  show ?thesis
    using gridRows_partition [of 105 0] a b by simp
qed

text \<open>
  C9. The grid never has more than 90 rows, so its cells number
  \<open>min(max(0, totalWeeks), 4680)\<close>: exactly 4680, not \<open>totalWeeks\<close>, whenever
  \<open>totalWeeks > 4680\<close>.
\<close>

theorem gridRows_cap:
  "length (gridRows tw wl) \<le> 90 \<and>
   length (concat (map cells (gridRows tw wl))) = nat (min (max 0 tw) 4680) \<and>
   (tw > 4680 \<longrightarrow> length (concat (map cells (gridRows tw wl))) = 4680)"
proof (intro conjI impI)
  show "length (gridRows tw wl) \<le> 90"
    unfolding length_gridRows by linarith
  show "length (concat (map cells (gridRows tw wl))) = nat (min (max 0 tw) 4680)"
    unfolding cells_gridRows by simp
  assume "4680 < tw"
  then show "length (concat (map cells (gridRows tw wl))) = 4680"
    unfolding cells_gridRows by simp
qed

theorem gridRows_cap_witness:
  "(4680 :: int) < 5000 \<and>
   length (gridRows 5000 10) \<le> 90 \<and>
   length (concat (map cells (gridRows 5000 10))) = 4680"
  using gridRows_cap [of 5000 10] by simp

text \<open>
  C10. For \<open>totalWeeks \<le> 0\<close> and any \<open>weeksLived\<close> the grid is one row with no cell in
  it, not an empty list of rows.
\<close>

theorem gridRows_nonpositive:
  "tw \<le> 0 \<Longrightarrow> gridRows tw wl = [\<lparr> decade = False, cells = [] \<rparr>]"
proof -
  assume "tw \<le> 0"
  then have T: "max 0 tw = 0" by simp
  have "yearLoop 0 (min (max 0 wl) 0) 0 0 [] = [] @ [yearRow 0 (min (max 0 wl) 0) 0 0]"
    by (subst yearLoop_step) simp_all
  then show ?thesis
    unfolding gridRows_def Let_def T by (simp add: yearRow_def)
qed

theorem gridRows_nonpositive_witness:
  "(- 4 :: int) \<le> 0 \<and> gridRows (- 4) 9 = [\<lparr> decade = False, cells = [] \<rparr>]"
  using gridRows_nonpositive [of "- 4" 9] by simp

section \<open>The summary and the submit handler\<close>

lemma submit_future:
  assumes "rawValue \<noteq> []" "parseDate h rawValue = Some dob" "clock w < dob"
  shows "submit h rawValue w =
           w\<lparr> console := console w @ [Warn ''Date of birth cannot be in the future.''] \<rparr>"
  using assms
  by (simp add: submit_def calculateWeeks_call_eq calculateWeeks_Inl FutureDateOfBirth_def)

lemma submit_newborn:
  assumes "rawValue \<noteq> []" "parseDate h rawValue = Some dob" "calculateWeeks w dob = Inr r"
    and "yearsLived r < 0.1"
  shows "submit h rawValue w =
           render h dob r
             (showError ''Welcome to the world. This chart shows your journey ahead.'' w)"
proof -
  have "yearsLived r < double (1 / 10)"
    using assms(4) tenth_le_double by simp
  then show ?thesis
    using assms(1-3) by (simp add: submit_def calculateWeeks_call_eq)
qed

lemma submit_implausible:
  assumes "rawValue \<noteq> []" "parseDate h rawValue = Some dob" "calculateWeeks w dob = Inr r"
    and "yearsLived r > 110"
  shows "submit h rawValue w =
           showError ''That date is very far in the past. Please check your year.'' w"
proof -
  have "\<not> yearsLived r < double (1 / 10)"
    using assms(4) double_tenth_less by simp
  then show ?thesis
    using assms by (simp add: submit_def calculateWeeks_call_eq MAX_REASONABLE_AGE_YEARS_def)
qed

lemma showError_keeps:
  "gridEl (showError m w) = gridEl w" "ageEl (showError m w) = ageEl w"
  "livedEl (showError m w) = livedEl w" "remainingEl (showError m w) = remainingEl w"
  "isFresh (showError m w) = isFresh w" "console (showError m w) = console w"
  "clock (showError m w) = clock w"
  by (simp_all add: showError_def split: option.split)

lemma dobErrorEl_showError:
  "dobErrorEl (showError m w) =
     (case dobErrorEl w of None \<Rightarrow> None
      | Some _ \<Rightarrow> Some \<lparr> textContent = m, errorClass = True \<rparr>)"
  by (simp add: showError_def split: option.split)

lemma updateSummary_keeps:
  "gridEl (updateSummary h r w) = gridEl w" "dobErrorEl (updateSummary h r w) = dobErrorEl w"
  "isFresh (updateSummary h r w) = isFresh w" "console (updateSummary h r w) = console w"
  by (simp_all add: updateSummary_def Let_def split: option.split)

lemma updateSummary_cards:
  "ageEl (updateSummary h r w) =
     (case ageEl w of None \<Rightarrow> None | Some _ \<Rightarrow> Some (toFixed1 h (yearsLived r)))"
  "livedEl (updateSummary h r w) =
     (case livedEl w of None \<Rightarrow> None | Some _ \<Rightarrow> Some (toLocaleString h (weeksLived r)))"
  "remainingEl (updateSummary h r w) =
     (case remainingEl w of None \<Rightarrow> None
      | Some _ \<Rightarrow> Some (toLocaleString h (max 0 (totalWeeks r - weeksLived r))))"
  by (simp_all add: updateSummary_def Let_def split: option.split)

lemma render_fields:
  "gridEl (render h dob r w) = gridRows (totalWeeks r) (weeksLived r)"
  "isFresh (render h dob r w) = True"
  "dobErrorEl (render h dob r w) = dobErrorEl w"
  "ageEl (render h dob r w) =
     (case ageEl w of None \<Rightarrow> None | Some _ \<Rightarrow> Some (toFixed1 h (yearsLived r)))"
  "livedEl (render h dob r w) =
     (case livedEl w of None \<Rightarrow> None | Some _ \<Rightarrow> Some (toLocaleString h (weeksLived r)))"
  "remainingEl (render h dob r w) =
     (case remainingEl w of None \<Rightarrow> None
      | Some _ \<Rightarrow> Some (toLocaleString h (max 0 (totalWeeks r - weeksLived r))))"
  by (simp_all add: render_def Let_def applyGridAnimation_def renderWeeksGrid_def
        updateSummary_keeps updateSummary_cards)

text \<open>
  C5. \<open>calculateWeeks\<close> fails exactly when \<open>dob > now\<close>, and then with the error
  \<open>FutureDateOfBirth\<close>. The handler catches it: it writes the warning to the console and
  nothing else, so the grid, the three summary cards, the feedback line and the animation
  class are as they were.
\<close>

theorem future_dob_aborts:
  "(isl (calculateWeeks w dob) \<longleftrightarrow> dob > clock w) \<and>
   (calculateWeeks w dob = Inl FutureDateOfBirth \<longleftrightarrow> dob > clock w) \<and>
   (rawValue \<noteq> [] \<and> parseDate h rawValue = Some dob \<and> dob > clock w \<longrightarrow>
      submit h rawValue w =
        w\<lparr> console := console w @ [Warn ''Date of birth cannot be in the future.''] \<rparr> \<and>
      gridEl (submit h rawValue w) = gridEl w \<and>
      ageEl (submit h rawValue w) = ageEl w \<and>
      livedEl (submit h rawValue w) = livedEl w \<and>
      remainingEl (submit h rawValue w) = remainingEl w \<and>
      dobErrorEl (submit h rawValue w) = dobErrorEl w \<and>
      isFresh (submit h rawValue w) = isFresh w)"
proof (intro conjI impI)
  show "isl (calculateWeeks w dob) \<longleftrightarrow> dob > clock w"
    by (cases "dob > clock w") (simp_all add: calculateWeeks_Inl calculateWeeks_Inr)
  show "calculateWeeks w dob = Inl FutureDateOfBirth \<longleftrightarrow> dob > clock w"
    by (cases "dob > clock w") (simp_all add: calculateWeeks_Inl calculateWeeks_Inr)
next
  assume a: "rawValue \<noteq> [] \<and> parseDate h rawValue = Some dob \<and> dob > clock w"
  then have s: "submit h rawValue w =
        w\<lparr> console := console w @ [Warn ''Date of birth cannot be in the future.''] \<rparr>"
    using submit_future [of rawValue h dob w] by blast
  show "submit h rawValue w =
        w\<lparr> console := console w @ [Warn ''Date of birth cannot be in the future.''] \<rparr>"
    by (rule s)
  show "gridEl (submit h rawValue w) = gridEl w" unfolding s by simp
  show "ageEl (submit h rawValue w) = ageEl w" unfolding s by simp
  show "livedEl (submit h rawValue w) = livedEl w" unfolding s by simp
  show "remainingEl (submit h rawValue w) = remainingEl w" unfolding s by simp
  show "dobErrorEl (submit h rawValue w) = dobErrorEl w" unfolding s by simp
  show "isFresh (submit h rawValue w) = isFresh w" unfolding s by simp
qed

theorem future_dob_aborts_witness:
  "''2030-01-01'' \<noteq> [] \<and> parseDate exampleHost ''2030-01-01'' = Some 1893456000000 \<and>
   1893456000000 > clock (examplePage 1762128000000) \<and>
   calculateWeeks (examplePage 1762128000000) 1893456000000 = Inl FutureDateOfBirth \<and>
   submit exampleHost ''2030-01-01'' (examplePage 1762128000000) =
     (examplePage 1762128000000)
       \<lparr> console := [Warn ''Date of birth cannot be in the future.''] \<rparr>"
proof -
  have p: "parseDate exampleHost ''2030-01-01'' = Some 1893456000000"
    by (simp add: exampleHost_def)
  have c: "1893456000000 > clock (examplePage 1762128000000)"
    by (simp add: examplePage_def)
  show ?thesis
    using future_dob_aborts [of "examplePage 1762128000000" 1893456000000 "''2030-01-01''" exampleHost]
      p c
    by (simp add: examplePage_def)
qed

text \<open>
  C6. On a submission that parses and computes: when \<open>yearsLived > 110\<close> the handler
  shows the message and returns before rendering, so the grid and the summary cards are
  not touched; when \<open>yearsLived < 0.1\<close> it shows the newborn message and goes on to
  render the grid and the summary.
\<close>

theorem implausible_aborts_newborn_renders:
  assumes "rawValue \<noteq> []" and "parseDate h rawValue = Some dob"
    and "calculateWeeks w dob = Inr r"
  shows
  "(yearsLived r > 110 \<longrightarrow>
      submit h rawValue w =
        showError ''That date is very far in the past. Please check your year.'' w \<and>
      gridEl (submit h rawValue w) = gridEl w \<and>
      ageEl (submit h rawValue w) = ageEl w \<and>
      livedEl (submit h rawValue w) = livedEl w \<and>
      remainingEl (submit h rawValue w) = remainingEl w \<and>
      isFresh (submit h rawValue w) = isFresh w) \<and>
   (yearsLived r < 0.1 \<longrightarrow>
      dobErrorEl (submit h rawValue w) =
        (case dobErrorEl w of None \<Rightarrow> None
         | Some _ \<Rightarrow> Some \<lparr> textContent = ''Welcome to the world. This chart shows your journey ahead.'',
                            errorClass = True \<rparr>) \<and>
      gridEl (submit h rawValue w) = gridRows (totalWeeks r) (weeksLived r) \<and>
      ageEl (submit h rawValue w) =
        (case ageEl w of None \<Rightarrow> None | Some _ \<Rightarrow> Some (toFixed1 h (yearsLived r))) \<and>
      livedEl (submit h rawValue w) =
        (case livedEl w of None \<Rightarrow> None | Some _ \<Rightarrow> Some (toLocaleString h (weeksLived r))) \<and>
      remainingEl (submit h rawValue w) =
        (case remainingEl w of None \<Rightarrow> None
         | Some _ \<Rightarrow> Some (toLocaleString h (max 0 (totalWeeks r - weeksLived r)))) \<and>
      isFresh (submit h rawValue w))"
proof (intro conjI impI)
  assume "yearsLived r > 110"
  then have s: "submit h rawValue w =
        showError ''That date is very far in the past. Please check your year.'' w"
    using assms submit_implausible [of rawValue h dob w r] by blast
  show "submit h rawValue w =
        showError ''That date is very far in the past. Please check your year.'' w"
    by (rule s)
  show "gridEl (submit h rawValue w) = gridEl w" unfolding s by (rule showError_keeps)
  show "ageEl (submit h rawValue w) = ageEl w" unfolding s by (rule showError_keeps)
  show "livedEl (submit h rawValue w) = livedEl w" unfolding s by (rule showError_keeps)
  show "remainingEl (submit h rawValue w) = remainingEl w" unfolding s by (rule showError_keeps)
  show "isFresh (submit h rawValue w) = isFresh w" unfolding s by (rule showError_keeps)
next
  assume "yearsLived r < 0.1"
  then have s: "submit h rawValue w =
           render h dob r
             (showError ''Welcome to the world. This chart shows your journey ahead.'' w)"
    using assms submit_newborn [of rawValue h dob w r] by blast
  show "dobErrorEl (submit h rawValue w) =
        (case dobErrorEl w of None \<Rightarrow> None
         | Some _ \<Rightarrow> Some \<lparr> textContent = ''Welcome to the world. This chart shows your journey ahead.'',
                            errorClass = True \<rparr>)"
    unfolding s render_fields by (rule dobErrorEl_showError)
  show "gridEl (submit h rawValue w) = gridRows (totalWeeks r) (weeksLived r)"
    unfolding s by (rule render_fields)
  show "ageEl (submit h rawValue w) =
        (case ageEl w of None \<Rightarrow> None | Some _ \<Rightarrow> Some (toFixed1 h (yearsLived r)))"
    unfolding s render_fields showError_keeps ..
  show "livedEl (submit h rawValue w) =
        (case livedEl w of None \<Rightarrow> None | Some _ \<Rightarrow> Some (toLocaleString h (weeksLived r)))"
    unfolding s render_fields showError_keeps ..
  show "remainingEl (submit h rawValue w) =
        (case remainingEl w of None \<Rightarrow> None
         | Some _ \<Rightarrow> Some (toLocaleString h (max 0 (totalWeeks r - weeksLived r))))"
    unfolding s render_fields showError_keeps ..
  show "isFresh (submit h rawValue w)"
    unfolding s render_fields ..
qed


theorem implausible_aborts_newborn_renders_witness:
  "''1900-01-01'' \<noteq> [] \<and>
   parseDate exampleHost ''1900-01-01'' = Some (- 2208988800000) \<and>
   calculateWeeks (examplePage 1762128000000) (- 2208988800000) =
     Inr \<lparr> totalWeeks = 4680, weeksLived = 6566, yearsLived = double (3971116800000 / 31557600000) \<rparr> \<and>
   yearsLived \<lparr> totalWeeks = 4680, weeksLived = 6566, yearsLived = double (3971116800000 / 31557600000) \<rparr> > 110 \<and>
   gridEl (submit exampleHost ''1900-01-01'' (examplePage 1762128000000)) = [] \<and>
   remainingEl (submit exampleHost ''1900-01-01'' (examplePage 1762128000000)) = Some ''-'' \<and>
   ''2025-11-01'' \<noteq> [] \<and>
   parseDate exampleHost ''2025-11-01'' = Some 1761955200000 \<and>
   calculateWeeks (examplePage 1762128000000) 1761955200000 =
     Inr \<lparr> totalWeeks = 4680, weeksLived = 0, yearsLived = double (172800000 / 31557600000) \<rparr> \<and>
   yearsLived \<lparr> totalWeeks = 4680, weeksLived = 0, yearsLived = double (172800000 / 31557600000) \<rparr> < 0.1 \<and>
   gridEl (submit exampleHost ''2025-11-01'' (examplePage 1762128000000)) = gridRows 4680 0 \<and>
   remainingEl (submit exampleHost ''2025-11-01'' (examplePage 1762128000000)) = Some ''4680''"
proof -
  let ?w = "examplePage 1762128000000"
  let ?old = "\<lparr> totalWeeks = 4680, weeksLived = 6566, yearsLived = double (3971116800000 / 31557600000) \<rparr>"
  let ?new = "\<lparr> totalWeeks = 4680, weeksLived = 0, yearsLived = double (172800000 / 31557600000) \<rparr>"
  have n1: "''1900-01-01'' \<noteq> []" and n2: "''2025-11-01'' \<noteq> []"
    by simp_all
  have p1: "parseDate exampleHost ''1900-01-01'' = Some (- 2208988800000)"
    and p2: "parseDate exampleHost ''2025-11-01'' = Some 1761955200000"
    by (simp_all add: exampleHost_def)
  have c1: "calculateWeeks ?w (- 2208988800000) = Inr ?old"
    and c2: "calculateWeeks ?w 1761955200000 = Inr ?new"
    by (simp_all add: calculateWeeks_exact examplePage_def)
  have "110 < double (3971116800000 / 31557600000)"
    and "double (172800000 / 31557600000) < 1 / 10"
    by code_simp+
  then have y1: "yearsLived ?old > 110" and y2: "yearsLived ?new < 0.1"
    by simp_all
  have t: "toLocaleString exampleHost 4680 = ''4680''"
    by code_simp
  have e: "gridEl ?w = []" "remainingEl ?w = Some ''-''"
    by (simp_all add: examplePage_def)
  show ?thesis
    using implausible_aborts_newborn_renders [OF n1 p1 c1]
      implausible_aborts_newborn_renders [OF n2 p2 c2] y1 y2 p1 p2 c1 c2 t e
    by (simp add: showError_keeps)
qed

text \<open>
  C7. For every result record, the remaining card (when the page has one) shows
  \<open>max(0, totalWeeks - weeksLived)\<close>, formatted, with the raw \<open>weeksLived\<close>: zero when
  \<open>weeksLived \<ge> totalWeeks\<close>, and \<open>totalWeeks - weeksLived\<close> otherwise.
\<close>

theorem remaining_floored:
  assumes "remainingEl w \<noteq> None"
  shows "remainingEl (updateSummary h r w) =
           Some (toLocaleString h (max 0 (totalWeeks r - weeksLived r))) \<and>
         (weeksLived r \<ge> totalWeeks r \<longrightarrow>
            remainingEl (updateSummary h r w) = Some (toLocaleString h 0)) \<and>
         (weeksLived r < totalWeeks r \<longrightarrow>
            remainingEl (updateSummary h r w) =
              Some (toLocaleString h (totalWeeks r - weeksLived r)))"
  using assms by (auto simp: updateSummary_cards max_def)

theorem remaining_floored_witness:
  "remainingEl (examplePage 0) \<noteq> None \<and>
   weeksLived \<lparr> totalWeeks = 4680, weeksLived = 5000, yearsLived = 95 \<rparr> \<ge> (4680 :: int) \<and>
   remainingEl (updateSummary exampleHost
       \<lparr> totalWeeks = 4680, weeksLived = 5000, yearsLived = 95 \<rparr> (examplePage 0)) = Some ''0'' \<and>
   weeksLived \<lparr> totalWeeks = 4680, weeksLived = 1348, yearsLived = 25 \<rparr> < (4680 :: int) \<and>
   remainingEl (updateSummary exampleHost
       \<lparr> totalWeeks = 4680, weeksLived = 1348, yearsLived = 25 \<rparr> (examplePage 0)) = Some ''3332''"
proof -
  have e: "remainingEl (examplePage 0) \<noteq> None"
    by (simp add: examplePage_def)
  have t: "toLocaleString exampleHost 0 = ''0''" "toLocaleString exampleHost 3332 = ''3332''"
    by code_simp+
  show ?thesis
    using remaining_floored [OF e, of exampleHost "\<lparr> totalWeeks = 4680, weeksLived = 5000, yearsLived = 95 \<rparr>"]
      remaining_floored [OF e, of exampleHost "\<lparr> totalWeeks = 4680, weeksLived = 1348, yearsLived = 25 \<rparr>"]
      e t
    by simp
qed

text \<open>
  C8, as the specification states it, fails: \<open>calculateWeeks\<close> takes \<open>dob\<close> alone and reads
  \<open>now\<close> from the wall clock, so two calls with the same argument, on pages that differ
  in the clock only, return different results.
\<close>

theorem calculateWeeks_clock_counterexample:
  "calculateWeeks (examplePage 1762128000000) 946684800000 \<noteq>
   calculateWeeks (examplePage 1762732800000) 946684800000"
  by (simp add: calculateWeeks_exact examplePage_def)

text \<open>
  C8, amended. A call of \<open>calculateWeeks\<close> is free of side effects: the world after it, the
  page and the clock, is the world before it. Its result is a function of its argument
  \<open>dob\<close> and of the one clock reading it takes: two calls with the same \<open>dob\<close> at the same
  clock reading return equal results, whatever else differs between the two worlds.
\<close>

theorem calculateWeeks_reads_clock_only:
  "snd (calculateWeeks_call dob w) = w \<and>
   (clock w = clock w' \<longrightarrow>
      fst (calculateWeeks_call dob w) = fst (calculateWeeks_call dob w') \<and>
      calculateWeeks w dob = calculateWeeks w' dob) \<and>
   (\<exists>F. \<forall>d v. calculateWeeks_call d v = (F d (clock v), v))"
proof (intro conjI impI)
  show "snd (calculateWeeks_call dob w) = w"
    by (simp add: calculateWeeks_call_def Let_def)
  show "\<exists>F. \<forall>d v. calculateWeeks_call d v = (F d (clock v), v)"
    by (rule exI [of _ "\<lambda>d c. calculateWeeks (examplePage c) d"])
       (simp add: calculateWeeks_def calculateWeeks_call_def Let_def examplePage_def)
next
  assume "clock w = clock w'"
  then show "fst (calculateWeeks_call dob w) = fst (calculateWeeks_call dob w')"
    and "calculateWeeks w dob = calculateWeeks w' dob"
    by (simp_all add: calculateWeeks_def calculateWeeks_call_def Let_def)
qed

theorem calculateWeeks_reads_clock_only_witness:
  "clock (examplePage 1762128000000) =
     clock ((examplePage 1762128000000)
              \<lparr> gridEl := gridRows 4680 1348, remainingEl := None, console := [Warn ''x''] \<rparr>) \<and>
   snd (calculateWeeks_call 946684800000 (examplePage 1762128000000)) =
     examplePage 1762128000000 \<and>
   calculateWeeks (examplePage 1762128000000) 946684800000 =
     calculateWeeks ((examplePage 1762128000000)
              \<lparr> gridEl := gridRows 4680 1348, remainingEl := None, console := [Warn ''x''] \<rparr>)
       946684800000"
  using calculateWeeks_reads_clock_only
    [of 946684800000 "examplePage 1762128000000"
        "(examplePage 1762128000000)
              \<lparr> gridEl := gridRows 4680 1348, remainingEl := None, console := [Warn ''x''] \<rparr>"]
  by simp

end
